theory Spec2Isabelle
  imports Complex_Main "HOL-Library.Char_ord" "HOL-Library.List_Lexorder"
begin

section \<open>BrewMetric: the authorization and accountability core\<close>

text \<open>
  A shallow embedding of \<^verbatim>\<open>src/auth/auth.py\<close> (class \<^verbatim>\<open>AuthManager\<close>), of the tables of
  \<^verbatim>\<open>src/database/database.py\<close>, of the waste write-off handler of
  \<^verbatim>\<open>src/ui/waste_log.py\<close> and of the audit logging of \<^verbatim>\<open>src/ui/main_window.py\<close>.

  Python \<^verbatim>\<open>str\<close> values are HOL strings, one \<open>char\<close> per code point (text below code
  point 256, where the pattern \<^verbatim>\<open>\d\<close> matches exactly the ten ASCII digits). A Python
  \<^verbatim>\<open>float\<close> and a \<^verbatim>\<open>Float\<close> column hold a real number that is an IEEE 754 double, and the
  subtraction of two of them is rounded as that standard prescribes; infinities and
  NaN are outside the model. Columns that the ORM fills from the clock by a column default
  (\<^verbatim>\<open>created_at\<close>, \<^verbatim>\<open>updated_at\<close>) and the descriptive columns of an inventory item that no
  modelled operation reads or writes are left out.
\<close>

subsection \<open>Tables\<close>

record user =
  user_id :: nat
  username :: string
  email :: string
  password_hash :: string
  full_name :: string
  role :: string
  is_active :: bool
  last_login :: "nat option"

record inventory_item =
  item_id :: nat
  name :: string
  quantity :: real
  is_deleted :: bool

record waste_log =
  waste_id :: nat
  inventory_item_id :: nat
  waste_user_id :: nat
  waste_quantity :: real
  waste_reason :: string
  waste_notes :: string

record audit_trail =
  audit_id :: nat
  audit_user_id :: nat
  audit_item_id :: "nat option"
  action :: string
  entity_type :: string
  entity_id :: nat
  old_values :: "string option"
  new_values :: "string option"
  description :: "string option"

text \<open>
  The committed content of the store. Every table is the list of its rows in rowid
  order; \<^verbatim>\<open>query(...).first()\<close> is the first row of the list that passes the filter.
\<close>

record database =
  users :: "user list"
  items :: "inventory_item list"
  waste_logs :: "waste_log list"
  audit_trails :: "audit_trail list"

text \<open>
  An integer primary key of a new row: one more than the largest key of the table,
  1 in an empty table.
\<close>

definition next_id :: "nat list \<Rightarrow> nat" where
  "next_id ids = fold max ids 0 + 1"

subsection \<open>Constants of the configuration module\<close>

text \<open>
  Modelled from the spec: \<^verbatim>\<open>config.py\<close> is imported by the sources and is not among
  them. The role tags are the two strings the \<^verbatim>\<open>role\<close> column documents
  (\<^verbatim>\<open>'admin' or 'staff'\<close>, \<open>role \<in> {admin, staff}\<close> in the specification).
\<close>

definition ROLE_ADMIN :: string where
  "ROLE_ADMIN = ''admin''"

definition ROLE_STAFF :: string where
  "ROLE_STAFF = ''staff''"

text \<open>
  Modelled from the spec: the minimum password length of \<^verbatim>\<open>config.py\<close>, "length \<open>\<ge>\<close>
  configured minimum (default 8)", the value that the docstring of
  \<^verbatim>\<open>validate_password_strength\<close> repeats.
\<close>

definition PASSWORD_MIN_LENGTH :: nat where
  "PASSWORD_MIN_LENGTH = 8"

subsection \<open>Authorizer: \<^verbatim>\<open>AuthManager.has_permission\<close>\<close>

definition staff_allowed :: "string list" where
  "staff_allowed =
     [''view_inventory'', ''add_item'', ''adjust_stock'', ''record_waste'',
      ''view_activity'', ''export_inventory'']"

text \<open>
  The argument is \<open>None\<close> for Python's \<^verbatim>\<open>None\<close>; a \<^verbatim>\<open>User\<close> object is always truthy.
\<close>

definition has_permission :: "user option \<Rightarrow> string \<Rightarrow> bool" where
  "has_permission usr act =
     (case usr of
        None \<Rightarrow> False
      | Some u \<Rightarrow>
          if role u = ROLE_ADMIN then True
          else if role u = ROLE_STAFF then act \<in> set staff_allowed
          else False)"

subsection \<open>CredentialVault: hashing and verification\<close>

text \<open>
  An exception carries its message (\<^verbatim>\<open>str(e)\<close>).
\<close>

datatype exn = Exception string

text \<open>
  What lies outside the repository, given to every operation as a value: the
  \<^verbatim>\<open>bcrypt\<close> library (\<^verbatim>\<open>hashpw\<close> and \<^verbatim>\<open>checkpw\<close> on the UTF-8 encoding of their
  arguments, each of which may raise), the salt that \<^verbatim>\<open>gensalt\<close> draws for this call,
  and the outcomes of \<^verbatim>\<open>session.commit()\<close> and of \<^verbatim>\<open>session.refresh(...)\<close> in the storage
  engine (\<open>None\<close> when the call goes through). Nothing is assumed about any of them.
\<close>

record env =
  bcrypt_gensalt :: string
  bcrypt_hashpw :: "string \<Rightarrow> string \<Rightarrow> exn + string"
  bcrypt_checkpw :: "string \<Rightarrow> string \<Rightarrow> exn + bool"
  commit_error :: "exn option"
  refresh_error :: "exn option"

definition hash_password :: "env \<Rightarrow> string \<Rightarrow> exn + string" where
  "hash_password e password = bcrypt_hashpw e password (bcrypt_gensalt e)"

definition verify_password :: "env \<Rightarrow> string \<Rightarrow> string \<Rightarrow> bool" where
  "verify_password e plain_password hashed_password =
     (case bcrypt_checkpw e plain_password hashed_password of
        Inr b \<Rightarrow> b
      | Inl _ \<Rightarrow> False)"

subsection \<open>CredentialVault: format and strength checks\<close>

definition lowercase :: string where
  "lowercase = ''abcdefghijklmnopqrstuvwxyz''"

definition uppercase :: string where
  "uppercase = ''ABCDEFGHIJKLMNOPQRSTUVWXYZ''"

definition digits :: string where
  "digits = ''0123456789''"

definition specials :: string where
  "specials = ''!@#$%^&*''"

text \<open>\<^verbatim>\<open>re.search\<close> of a one-character class: some character of the string is in it.\<close>

definition re_search :: "string \<Rightarrow> string \<Rightarrow> bool" where
  "re_search cls s = list_ex (\<lambda>c. c \<in> set cls) s"

text \<open>
  Without \<^verbatim>\<open>re.MULTILINE\<close> the anchor \<^verbatim>\<open>$\<close> matches at the end of the string and also
  just before a newline that ends the string; neither pattern below can consume that
  newline, so a match of the pattern is a match of its body against the string without it.
\<close>

definition strip_final_newline :: "string \<Rightarrow> string" where
  "strip_final_newline s = (if s \<noteq> [] \<and> last s = CHR 0x0A then butlast s else s)"

fun str_nat :: "nat \<Rightarrow> string" where
  "str_nat n =
     (if n < 10 then [char_of (48 + n)]
      else str_nat (n div 10) @ [char_of (48 + n mod 10)])"

definition validate_password_strength :: "string \<Rightarrow> bool \<times> string" where
  "validate_password_strength password =
     (if length password < PASSWORD_MIN_LENGTH then
        (False, ''Password must be at least '' @ str_nat PASSWORD_MIN_LENGTH
                  @ '' characters long'')
      else if \<not> re_search lowercase password then
        (False, ''Password must contain at least one lowercase letter'')
      else if \<not> re_search uppercase password then
        (False, ''Password must contain at least one uppercase letter'')
      else if \<not> re_search digits password then
        (False, ''Password must contain at least one digit'')
      else if \<not> re_search specials password then
        (False, ''Password must contain at least one special character (!@#$%^&*)'')
      else (True, ''Password is strong''))"

text \<open>The pattern \<^verbatim>\<open>^[a-zA-Z_][a-zA-Z0-9_]*$\<close>.\<close>

definition username_pattern :: "string \<Rightarrow> bool" where
  "username_pattern s =
     (case strip_final_newline s of
        [] \<Rightarrow> False
      | c # cs \<Rightarrow>
          c \<in> set (lowercase @ uppercase @ ''_'')
          \<and> list_all (\<lambda>x. x \<in> set (lowercase @ uppercase @ digits @ ''_'')) cs)"

definition validate_username :: "string \<Rightarrow> bool \<times> string" where
  "validate_username uname =
     (if length uname < 3 \<or> length uname > 50 then
        (False, ''Username must be between 3 and 50 characters'')
      else if \<not> username_pattern uname then
        (False, ''Username can only contain letters, numbers, and underscores ''
                  @ ''(must start with letter or underscore)'')
      else (True, ''Username is valid''))"

text \<open>
  The pattern \<^verbatim>\<open>^[a-zA-Z0-9._%+-]+@[a-zA-Z0-9.-]+\.[a-zA-Z]{2,}$\<close>. No class of the local
  part or of the domain holds \<^verbatim>\<open>@\<close>, and the last class holds no dot: a match splits the
  string at its first \<^verbatim>\<open>@\<close> and what follows at its last dot.
\<close>

definition email_pattern :: "string \<Rightarrow> bool" where
  "email_pattern s =
     (let t = strip_final_newline s;
          local_part = takeWhile (\<lambda>c. c \<noteq> CHR ''@'') t
      in case dropWhile (\<lambda>c. c \<noteq> CHR ''@'') t of
           [] \<Rightarrow> False
         | _ # r \<Rightarrow>
             (let tld = rev (takeWhile (\<lambda>c. c \<noteq> CHR ''.'') (rev r))
              in case dropWhile (\<lambda>c. c \<noteq> CHR ''.'') (rev r) of
                   [] \<Rightarrow> False
                 | _ # rev_domain \<Rightarrow>
                     local_part \<noteq> []
                     \<and> list_all (\<lambda>x. x \<in> set (lowercase @ uppercase @ digits @ ''._%+-''))
                          local_part
                     \<and> rev_domain \<noteq> []
                     \<and> list_all (\<lambda>x. x \<in> set (lowercase @ uppercase @ digits @ ''.-''))
                          rev_domain
                     \<and> 2 \<le> length tld
                     \<and> list_all (\<lambda>x. x \<in> set (lowercase @ uppercase)) tld))"

definition validate_email :: "string \<Rightarrow> bool \<times> string" where
  "validate_email mail =
     (if \<not> email_pattern mail then (False, ''Invalid email format'')
      else (True, ''Email is valid''))"

subsection \<open>Directory: \<^verbatim>\<open>authenticate_user\<close>, \<^verbatim>\<open>create_user\<close>, \<^verbatim>\<open>create_default_admin\<close>\<close>

text \<open>
  The handler of \<^verbatim>\<open>authenticate_user\<close> turns any exception of the body into \<^verbatim>\<open>None\<close>; the
  query on the table raises nothing here, and \<^verbatim>\<open>verify_password\<close> catches its own.
\<close>

definition authenticate_user :: "env \<Rightarrow> database \<Rightarrow> string \<Rightarrow> string \<Rightarrow> user option" where
  "authenticate_user e db uname password =
     (case find (\<lambda>u. username u = uname) (users db) of
        None \<Rightarrow> None
      | Some u \<Rightarrow>
          if \<not> is_active u then None
          else if \<not> verify_password e password (password_hash u) then None
          else Some u)"

text \<open>
  The result is the tuple \<^verbatim>\<open>(success, message, user_object)\<close> and the store after the
  call. In the \<^verbatim>\<open>try\<close> block the row is built (hashing may raise), added, committed
  and read back. The handler rolls the session back: when the hashing or the commit
  raised, the store is as it was; when the read-back raised, the commit has already
  stored the row and the rollback finds nothing to undo.
\<close>

definition create_user ::
  "env \<Rightarrow> database \<Rightarrow> string \<Rightarrow> string \<Rightarrow> string \<Rightarrow> string \<Rightarrow> string
     \<Rightarrow> (bool \<times> string \<times> user option) \<times> database" where
  "create_user e db uname mail password fname r =
     (let (valid_u, msg_u) = validate_username uname in
      if \<not> valid_u then ((False, ''Invalid username: '' @ msg_u, None), db)
      else let (valid_e, msg_e) = validate_email mail in
      if \<not> valid_e then ((False, ''Invalid email: '' @ msg_e, None), db)
      else let (valid_p, msg_p) = validate_password_strength password in
      if \<not> valid_p then ((False, ''Weak password: '' @ msg_p, None), db)
      else if find (\<lambda>u. username u = uname) (users db) \<noteq> None then
        ((False, ''Username already exists'', None), db)
      else if find (\<lambda>u. email u = mail) (users db) \<noteq> None then
        ((False, ''Email already exists'', None), db)
      else
        (case hash_password e password of
           Inl (Exception m) \<Rightarrow> ((False, ''Error creating user: '' @ m, None), db)
         | Inr h \<Rightarrow>
             (case commit_error e of
                Some (Exception m) \<Rightarrow> ((False, ''Error creating user: '' @ m, None), db)
              | None \<Rightarrow>
                  (let new_user =
                         \<lparr>user_id = next_id (map user_id (users db)),
                          username = uname, email = mail, password_hash = h,
                          full_name = fname, role = r, is_active = True,
                          last_login = None\<rparr>;
                       db' = db\<lparr>users := users db @ [new_user]\<rparr>
                   in case refresh_error e of
                        Some (Exception m) \<Rightarrow>
                          ((False, ''Error creating user: '' @ m, None), db')
                      | None \<Rightarrow>
                          ((True, ''User created successfully'', Some new_user), db')))))"


subsection \<open>AuthSession and AuditLedger: the login path\<close>

text \<open>
  The class attributes \<^verbatim>\<open>AuthManager.current_user\<close> and \<^verbatim>\<open>AuthManager.current_session\<close> (a
  session is named by a handle), beside the store.
\<close>

record app_state =
  store :: database
  current_user :: "user option"
  current_session :: "nat option"

definition set_current_user :: "app_state \<Rightarrow> user \<Rightarrow> nat \<Rightarrow> app_state" where
  "set_current_user st u sess = st\<lparr>current_user := Some u, current_session := Some sess\<rparr>"

definition logout :: "app_state \<Rightarrow> app_state" where
  "logout st = st\<lparr>current_user := None, current_session := None\<rparr>"

text \<open>
  \<^verbatim>\<open>MainWindow.log_audit_action\<close>: one row added and committed in a transaction of its
  own; an exception is printed and the row is not stored. The column
  \<^verbatim>\<open>inventory_item_id\<close> is never given a value.
\<close>

definition log_audit_action ::
  "env \<Rightarrow> database \<Rightarrow> user \<Rightarrow> string \<Rightarrow> string \<Rightarrow> nat \<Rightarrow> string option \<Rightarrow> string option
     \<Rightarrow> string option \<Rightarrow> database" where
  "log_audit_action e db self_user act etype eid descr old new =
     (case commit_error e of
        Some _ \<Rightarrow> db
      | None \<Rightarrow>
          db\<lparr>audit_trails := audit_trails db @
               [\<lparr>audit_id = next_id (map audit_id (audit_trails db)),
                 audit_user_id = user_id self_user, audit_item_id = None,
                 action = act, entity_type = etype, entity_id = eid,
                 old_values = old, new_values = new, description = descr\<rparr>]\<rparr>)"

text \<open>
  \<^verbatim>\<open>LoginWindow.on_login_complete\<close> with what its signal runs: the constructor of
  \<^verbatim>\<open>MainWindow\<close> logs the action \<^verbatim>\<open>LOGIN\<close>. Without a user only the error label changes.
\<close>

definition on_login_complete :: "env \<Rightarrow> app_state \<Rightarrow> nat \<Rightarrow> user option \<Rightarrow> app_state" where
  "on_login_complete e st sess usr =
     (case usr of
        None \<Rightarrow> st
      | Some u \<Rightarrow>
          (let st1 = set_current_user st u sess
           in st1\<lparr>store :=
                log_audit_action e (store st1) u ''LOGIN'' ''User'' (user_id u)
                  (Some (''User '' @ [CHR 0x27] @ username u @ [CHR 0x27] @ '' logged in''))
                  None None\<rparr>))"

text \<open>
  The login path from the credentials on: \<^verbatim>\<open>LoginWindow.authenticate_user\<close> in the
  worker thread, then \<^verbatim>\<open>on_login_complete\<close> with its result.
\<close>

definition login :: "env \<Rightarrow> app_state \<Rightarrow> nat \<Rightarrow> string \<Rightarrow> string \<Rightarrow> app_state" where
  "login e st sess uname password =
     on_login_complete e st sess (authenticate_user e (store st) uname password)"

subsection \<open>Floating point\<close>

text \<open>
  The nearest integer of a real number, a tie going to the even one.
\<close>

definition round_half_even :: "real \<Rightarrow> int" where
  "round_half_even x =
     (let f = \<lfloor>x\<rfloor>; r = x - of_int f
      in if r < 1 / 2 then f
         else if 1 / 2 < r then f + 1
         else if even f then f else f + 1)"

text \<open>
  The binary exponent of a positive number: \<open>binade x = k\<close> when
  \<open>2 ^ k \<le> x < 2 ^ (k + 1)\<close>.
\<close>

function binade :: "real \<Rightarrow> int" where
  "binade x =
     (if x \<le> 0 then 0
      else if x < 1 then binade (2 * x) - 1
      else if 2 \<le> x then binade (x / 2) + 1
      else 0)"
  by pat_completeness auto
termination
proof (relation
    "measure (\<lambda>x. if x \<le> 0 then 0 else if x < 1 then nat \<lceil>1 / x\<rceil> else nat \<lfloor>x\<rfloor>)")
  show "wf (measure (\<lambda>x::real.
          if x \<le> 0 then 0 else if x < 1 then nat \<lceil>1 / x\<rceil> else nat \<lfloor>x\<rfloor>))"
    by simp
next
  fix x :: real
  assume a: "\<not> x \<le> 0" "x < 1"
  show "(2 * x, x) \<in> measure (\<lambda>x.
          if x \<le> 0 then 0 else if x < 1 then nat \<lceil>1 / x\<rceil> else nat \<lfloor>x\<rfloor>)"
  proof (cases "2 * x < 1")
    case True
    from a have p: "0 < x" by simp
    have "1 / (2 * x) + 1 \<le> 1 / x"
    proof -
      have "1 / x - 1 / (2 * x) = 1 / (2 * x)" using p by (simp add: field_simps)
      moreover have "1 \<le> 1 / (2 * x)" using True p by (simp add: field_simps)
      ultimately show ?thesis by linarith
    qed
    then have "\<lceil>1 / (2 * x)\<rceil> + 1 \<le> \<lceil>1 / x\<rceil>"
      by (metis ceiling_add_one ceiling_mono)
    moreover have "0 < \<lceil>1 / (2 * x)\<rceil>" using p by simp
    ultimately show ?thesis using a True by simp
  next
    case False
    from a have p: "0 < x" by simp
    from False a have "\<lfloor>2 * x\<rfloor> = 1" by (simp add: floor_eq_iff)
    moreover have "1 < 1 / x" using a p by (simp add: field_simps)
    then have "2 \<le> \<lceil>1 / x\<rceil>" by linarith
    ultimately show ?thesis using a False by simp
  qed
next
  fix x :: real
  assume a: "\<not> x \<le> 0" "\<not> x < 1" "2 \<le> x"
  have "\<lfloor>x / 2\<rfloor> < \<lfloor>x\<rfloor>"
  proof -
    have "x / 2 + 1 \<le> x" using a by simp
    then have "\<lfloor>x / 2\<rfloor> + 1 \<le> \<lfloor>x\<rfloor>" by (metis floor_add_int floor_mono of_int_1)
    then show ?thesis by simp
  qed
  moreover have "0 < \<lfloor>x / 2\<rfloor>" using a by simp
  ultimately show "(x / 2, x) \<in> measure (\<lambda>x.
          if x \<le> 0 then 0 else if x < 1 then nat \<lceil>1 / x\<rceil> else nat \<lfloor>x\<rfloor>)"
    using a by simp
qed

declare binade.simps [simp del]

text \<open>
  Rounding to the nearest double (binary64: 53 significant bits, the smallest
  exponent \<open>-1022\<close>, so that the spacing of the doubles around \<open>x\<close> is
  \<open>2 ^ (binade \<bar>x\<bar> - 52)\<close> and never below \<open>2 ^ (-1074)\<close>), ties to even.
\<close>

definition round_double :: "real \<Rightarrow> real" where
  "round_double x =
     (if x = 0 then 0
      else let e = max (binade \<bar>x\<bar> - 52) (- 1074)
           in of_int (round_half_even (x / 2 powi e)) * 2 powi e)"

text \<open>
  The operators \<^verbatim>\<open>-\<close> and \<^verbatim>\<open>+\<close> of two Python floats: the exact result, rounded. The
  comparison in \<^verbatim>\<open>max\<close> is exact.
\<close>

definition double_sub :: "real \<Rightarrow> real \<Rightarrow> real" where
  "double_sub a b = round_double (a - b)"

definition double_add :: "real \<Rightarrow> real \<Rightarrow> real" where
  "double_add a b = round_double (a + b)"

subsection \<open>InventoryLedger: the waste write-off\<close>

definition get_item :: "database \<Rightarrow> nat \<Rightarrow> inventory_item option" where
  "get_item db i = find (\<lambda>it. item_id it = i) (items db)"

definition get_all_items :: "database \<Rightarrow> bool \<Rightarrow> inventory_item list" where
  "get_all_items db exclude_deleted =
     sort_key name
       (if exclude_deleted then filter (\<lambda>it. \<not> is_deleted it) (items db) else items db)"

text \<open>
  The widgets of \<^verbatim>\<open>WasteDialog\<close>: the item box with its entries (text, data) and current
  index, the quantity spin box, the reason box, the notes. An index is \<open>-1\<close> when
  nothing is selected.
\<close>

record waste_dialog =
  item_combo :: "(string \<times> nat) list"
  item_index :: int
  qty_input :: real
  reason_combo :: "string list"
  reason_index :: int
  notes_input :: string

definition current_data :: "(string \<times> nat) list \<Rightarrow> int \<Rightarrow> nat option" where
  "current_data combo idx =
     (if 0 \<le> idx \<and> idx < int (length combo) then Some (snd (combo ! nat idx)) else None)"

definition current_text :: "string list \<Rightarrow> int \<Rightarrow> string" where
  "current_text combo idx =
     (if 0 \<le> idx \<and> idx < int (length combo) then combo ! nat idx else [])"

text \<open>
  \<^verbatim>\<open>WasteDialog.init_ui\<close>: the item box holds the items that are not soft-deleted, the
  reason box the configured reasons (\<^verbatim>\<open>WASTE_REASONS\<close> of the absent \<^verbatim>\<open>config.py\<close>, a
  parameter here). A box that receives its first entry selects it.
\<close>

definition init_ui :: "database \<Rightarrow> string list \<Rightarrow> waste_dialog" where
  "init_ui db waste_reasons =
     (let its = get_all_items db True
      in \<lparr>item_combo = map (\<lambda>it. (name it, item_id it)) its,
          item_index = (if its = [] then - 1 else 0),
          qty_input = 1,
          reason_combo = waste_reasons,
          reason_index = (if waste_reasons = [] then - 1 else 0),
          notes_input = []\<rparr>)"

text \<open>
  What the user can do to an open dialog: pick any entry of either box, set the
  quantity, type notes. The entries of the boxes stay as \<^verbatim>\<open>init_ui\<close> filled them. The
  spin box is created with no range and no precision of its own: its value is a
  number of hundredths from 0.00 to 99.99, as a double.
\<close>

definition edited :: "waste_dialog \<Rightarrow> waste_dialog \<Rightarrow> bool" where
  "edited d0 d \<longleftrightarrow>
     item_combo d = item_combo d0 \<and> reason_combo d = reason_combo d0
     \<and> (\<exists>k \<in> {0..9999}. qty_input d = round_double (real k / 100))
     \<and> (if item_combo d0 = [] then item_index d = - 1
         else 0 \<le> item_index d \<and> item_index d < int (length (item_combo d0)))
     \<and> (if reason_combo d0 = [] then reason_index d = - 1
         else 0 \<le> reason_index d \<and> reason_index d < int (length (reason_combo d0)))"

text \<open>The attributes that \<^verbatim>\<open>accept\<close> sets on the dialog.\<close>

record waste_entry =
  entry_item_id :: "nat option"
  entry_quantity :: real
  entry_reason :: string
  entry_notes :: string

text \<open>\<^verbatim>\<open>WasteDialog.accept\<close>: \<open>Inl\<close> is the validation warning, the dialog stays open.\<close>

definition accept :: "waste_dialog \<Rightarrow> string + waste_entry" where
  "accept d =
     (if item_index d < 0 then Inl ''Select an item''
      else Inr \<lparr>entry_item_id = current_data (item_combo d) (item_index d),
                entry_quantity = qty_input d,
                entry_reason = current_text (reason_combo d) (reason_index d),
                entry_notes = notes_input d\<rparr>)"

datatype button = Record_button | Cancel_button

text \<open>
  \<^verbatim>\<open>dialog.exec()\<close>: the dialog is accepted only by \<^verbatim>\<open>accept\<close> running to its end.
\<close>

definition exec_dialog :: "button \<Rightarrow> waste_dialog \<Rightarrow> waste_entry option" where
  "exec_dialog btn d =
     (case btn of
        Cancel_button \<Rightarrow> None
      | Record_button \<Rightarrow> (case accept d of Inl _ \<Rightarrow> None | Inr en \<Rightarrow> Some en))"

text \<open>
  \<^verbatim>\<open>WasteLogPage.show_add_waste_dialog\<close> after the dialog has closed, \<open>d\<close> being the
  dialog as the user left it and \<open>self_user\<close> the user of the page. In the \<^verbatim>\<open>try\<close>
  block \<^verbatim>\<open>query(InventoryItem).get\<close> gives \<^verbatim>\<open>None\<close> for an unknown key and the assignment
  to its \<^verbatim>\<open>quantity\<close> raises; the handler rolls back, as it does when the commit fails.
\<close>

definition show_add_waste_dialog ::
  "env \<Rightarrow> database \<Rightarrow> user \<Rightarrow> button \<Rightarrow> waste_dialog \<Rightarrow> database" where
  "show_add_waste_dialog e db self_user btn d =
     (case exec_dialog btn d of
        None \<Rightarrow> db
      | Some en \<Rightarrow>
          (case entry_item_id en of
             None \<Rightarrow> db
           | Some i \<Rightarrow>
               (case get_item db i of
                  None \<Rightarrow> db
                | Some item \<Rightarrow>
                    (let new_quantity = max 0 (double_sub (quantity item) (entry_quantity en));
                         db1 = db\<lparr>items :=
                                 map (\<lambda>it. if item_id it = i
                                            then it\<lparr>quantity := new_quantity\<rparr> else it)
                                   (items db)\<rparr>;
                         waste =
                           \<lparr>waste_id = next_id (map waste_id (waste_logs db)),
                            inventory_item_id = i, waste_user_id = user_id self_user,
                            waste_quantity = entry_quantity en,
                            waste_reason = entry_reason en,
                            waste_notes = entry_notes en\<rparr>;
                         db2 = db1\<lparr>waste_logs := waste_logs db1 @ [waste]\<rparr>
                     in case commit_error e of None \<Rightarrow> db2 | Some _ \<Rightarrow> db))))"

text \<open>A sequence of write-offs by the same user, each with its own dialog.\<close>

fun record_wastes ::
  "database \<Rightarrow> user \<Rightarrow> (env \<times> button \<times> waste_dialog) list \<Rightarrow> database" where
  "record_wastes db self_user [] = db"
| "record_wastes db self_user ((e, btn, d) # rest) =
     record_wastes (show_add_waste_dialog e db self_user btn d) self_user rest"

text \<open>
  A step of a sequence is a committed write-off of item \<open>i\<close> when the dialog is accepted
  with that item selected and the commit goes through. The amounts written off an item
  are the quantities of those steps, in order.
\<close>

definition applied_to :: "nat \<Rightarrow> env \<times> button \<times> waste_dialog \<Rightarrow> bool" where
  "applied_to i step \<longleftrightarrow>
     (case step of (e, btn, d) \<Rightarrow>
        btn = Record_button \<and> 0 \<le> item_index d
        \<and> current_data (item_combo d) (item_index d) = Some i \<and> commit_error e = None)"

definition writeoffs_of :: "nat \<Rightarrow> (env \<times> button \<times> waste_dialog) list \<Rightarrow> real list" where
  "writeoffs_of i steps = map (\<lambda>(e, btn, d). qty_input d) (filter (applied_to i) steps)"

text \<open>
  No subtraction of the run rounds: each difference is a double already.
\<close>

fun exact_run :: "real \<Rightarrow> real list \<Rightarrow> bool" where
  "exact_run q [] = True"
| "exact_run q (w # ws) = (double_sub q w = q - w \<and> exact_run (max 0 (q - w)) ws)"

text \<open>The rows that the invariants count.\<close>

definition waste_log_count :: "database \<Rightarrow> nat \<Rightarrow> nat" where
  "waste_log_count db i = length (filter (\<lambda>w. inventory_item_id w = i) (waste_logs db))"

definition waste_audit_count :: "database \<Rightarrow> nat \<Rightarrow> nat" where
  "waste_audit_count db i =
     length (filter (\<lambda>a. action a = ''WASTE'' \<and> audit_item_id a = Some i) (audit_trails db))"

subsection \<open>Concrete data\<close>

text \<open>
  Values at which the theorems are instantiated. \<open>sample_env\<close> has the interface of
  the library and a commit that goes through; the theorems hold for every \<open>env\<close>.
\<close>

definition sample_env :: env where
  "sample_env =
     \<lparr>bcrypt_gensalt = ''$2b$12$'',
      bcrypt_hashpw = (\<lambda>p s. Inr (s @ rev p)),
      bcrypt_checkpw = (\<lambda>p h. Inr (h = ''$2b$12$'' @ rev p)),
      commit_error = None, refresh_error = None\<rparr>"

definition refresh_fails_env :: env where
  "refresh_fails_env = sample_env\<lparr>refresh_error := Some (Exception ''connection lost'')\<rparr>"

definition commit_fails_env :: env where
  "commit_fails_env = sample_env\<lparr>commit_error := Some (Exception ''database is locked'')\<rparr>"

definition empty_db :: database where
  "empty_db = \<lparr>users = [], items = [], waste_logs = [], audit_trails = []\<rparr>"

definition default_admin :: user where
  "default_admin =
     \<lparr>user_id = 1, username = ''admin'', email = ''admin@brewmetric.local'',
      password_hash = ''$2b$12$654321@nimdA'', full_name = ''Administrator'',
      role = ''admin'', is_active = True, last_login = None\<rparr>"

definition alice :: user where
  "alice =
     \<lparr>user_id = 1, username = ''alice'', email = ''alice@x.com'',
      password_hash = ''$2b$12$!1fedcbA'', full_name = ''Alice'', role = ''staff'',
      is_active = True, last_login = None\<rparr>"

definition bob :: user where
  "bob =
     \<lparr>user_id = 2, username = ''bob'', email = ''bob@x.com'',
      password_hash = ''$2b$12$!1fedcbA'', full_name = ''Bob'', role = ''manager'',
      is_active = False, last_login = None\<rparr>"

definition staff_db :: database where
  "staff_db = \<lparr>users = [alice, bob], items = [], waste_logs = [], audit_trails = []\<rparr>"

definition pearl_tea :: inventory_item where
  "pearl_tea = \<lparr>item_id = 1, name = ''Pearl Tea'', quantity = 5, is_deleted = False\<rparr>"

definition stock_db :: database where
  "stock_db = \<lparr>users = [default_admin], items = [pearl_tea], waste_logs = [],
     audit_trails = []\<rparr>"

text \<open>
  A list of reasons for the examples, the three that the \<^verbatim>\<open>reason\<close> column names; the
  configured list is a parameter of \<^verbatim>\<open>init_ui\<close>.
\<close>

definition waste_reasons :: "string list" where
  "waste_reasons = [''spill'', ''expired'', ''quality'']"

text \<open>
  The dialog of the page after the user has set the quantity to 8 and picked the second
  reason, and the same dialog with the quantity set to 0.
\<close>

definition expired_dialog :: waste_dialog where
  "expired_dialog = (init_ui stock_db waste_reasons)\<lparr>qty_input := 8, reason_index := 1\<rparr>"

definition zero_dialog :: waste_dialog where
  "zero_dialog = (init_ui stock_db waste_reasons)\<lparr>qty_input := 0\<rparr>"

definition two_dialog :: waste_dialog where
  "two_dialog = (init_ui stock_db waste_reasons)\<lparr>qty_input := 2\<rparr>"

text \<open>
  A sequence on the stock: a cancelled dialog, a write-off whose commit fails, then the
  write-offs of 2 and of 8.
\<close>

definition stock_steps :: "(env \<times> button \<times> waste_dialog) list" where
  "stock_steps =
     [(sample_env, Cancel_button, expired_dialog),
      (commit_fails_env, Record_button, expired_dialog),
      (sample_env, Record_button, two_dialog),
      (sample_env, Record_button, expired_dialog)]"

text \<open>
  One unit on hand, and the write-offs of 0.20 and of 0.10 as the spin box gives them.
\<close>

definition unit_db :: database where
  "unit_db = stock_db\<lparr>items := [pearl_tea\<lparr>quantity := 1\<rparr>]\<rparr>"

definition tenths_steps :: "(env \<times> button \<times> waste_dialog) list" where
  "tenths_steps =
     [(sample_env, Record_button,
       (init_ui unit_db waste_reasons)\<lparr>qty_input := round_double (20 / 100)\<rparr>),
      (sample_env, Record_button,
       (init_ui unit_db waste_reasons)\<lparr>qty_input := round_double (10 / 100)\<rparr>)]"

definition logged_out :: app_state where
  "logged_out = \<lparr>store = staff_db, current_user = None, current_session = None\<rparr>"

section \<open>Properties\<close>

subsection \<open>Shared lemmas\<close>








lemma show_add_waste_dialog_other_tables:
  "audit_trails (show_add_waste_dialog e db su btn d) = audit_trails db"
  "users (show_add_waste_dialog e db su btn d) = users db"
  by (simp_all add: show_add_waste_dialog_def Let_def split: option.splits)

lemma record_wastes_audit_trails:
  "audit_trails (record_wastes db su steps) = audit_trails db"
  by (induction db su steps rule: record_wastes.induct)
     (simp_all add: show_add_waste_dialog_other_tables)

lemma show_add_waste_dialog_applied:
  assumes "btn = Record_button" "0 \<le> item_index d"
    "current_data (item_combo d) (item_index d) = Some i"
    "get_item db i = Some item" "commit_error e = None"
  shows "show_add_waste_dialog e db su btn d =
     db\<lparr>items := map (\<lambda>it. if item_id it = i
                           then it\<lparr>quantity :=
                                  max 0 (double_sub (quantity item) (qty_input d))\<rparr>
                           else it)
                     (items db),
        waste_logs := waste_logs db @
          [\<lparr>waste_id = next_id (map waste_id (waste_logs db)), inventory_item_id = i,
            waste_user_id = user_id su, waste_quantity = qty_input d,
            waste_reason = current_text (reason_combo d) (reason_index d),
            waste_notes = notes_input d\<rparr>]\<rparr>"
  using assms
  by (simp add: show_add_waste_dialog_def exec_dialog_def accept_def Let_def)

lemma show_add_waste_dialog_cases:
  "show_add_waste_dialog e db su btn d = db
   \<or> (\<exists>j item. get_item db j = Some item
        \<and> applied_to j (e, btn, d)
        \<and> show_add_waste_dialog e db su btn d =
          db\<lparr>items := map (\<lambda>it. if item_id it = j
                           then it\<lparr>quantity :=
                                  max 0 (double_sub (quantity item) (qty_input d))\<rparr>
                           else it)
                     (items db),
             waste_logs := waste_logs db @
               [\<lparr>waste_id = next_id (map waste_id (waste_logs db)), inventory_item_id = j,
                 waste_user_id = user_id su, waste_quantity = qty_input d,
                 waste_reason = current_text (reason_combo d) (reason_index d),
                 waste_notes = notes_input d\<rparr>]\<rparr>)"
  by (auto simp add: show_add_waste_dialog_def exec_dialog_def accept_def applied_to_def
      Let_def split: option.splits button.splits)

lemma find_map_update:
  "find (\<lambda>it. item_id it = i) xs = Some item \<Longrightarrow>
   find (\<lambda>it. item_id it = i)
     (map (\<lambda>it. if item_id it = i then it\<lparr>quantity := q\<rparr> else it) xs)
   = Some (item\<lparr>quantity := q\<rparr>)"
  by (induction xs) (auto split: if_splits)

lemma find_map_other:
  "i \<noteq> j \<Longrightarrow>
   find (\<lambda>it. item_id it = i)
     (map (\<lambda>it. if item_id it = j then it\<lparr>quantity := q\<rparr> else it) xs)
   = find (\<lambda>it. item_id it = i) xs"
  by (induction xs) auto

lemma clamp_twice:
  fixes q w s :: real
  assumes "0 \<le> w" "0 \<le> s"
  shows "max 0 (max 0 (q - w) - s) = max 0 (q - (w + s))"
  using assms by (auto simp add: max_def)

lemma clamp_exact:
  "0 \<le> q \<Longrightarrow> \<forall>w \<in> set ws. 0 \<le> w \<Longrightarrow> exact_run q ws \<Longrightarrow>
     foldl (\<lambda>q w. max 0 (double_sub q w)) q ws = max 0 (q - sum_list ws)"
proof (induction ws arbitrary: q)
  case Nil
  then show ?case by simp
next
  case (Cons w ws)
  from Cons.prems have w: "0 \<le> w" and ws: "\<forall>v \<in> set ws. 0 \<le> v"
    and ex: "double_sub q w = q - w" "exact_run (max 0 (q - w)) ws"
    by simp_all
  from ws have s: "0 \<le> sum_list ws" by (simp add: sum_list_nonneg)
  have "foldl (\<lambda>q w. max 0 (double_sub q w)) q (w # ws)
      = foldl (\<lambda>q w. max 0 (double_sub q w)) (max 0 (q - w)) ws"
    by (simp add: ex)
  also have "\<dots> = max 0 (max 0 (q - w) - sum_list ws)"
    using ws ex by (intro Cons.IH) simp_all
  also have "\<dots> = max 0 (q - (w + sum_list ws))"
    using w s by (rule clamp_twice)
  finally show ?case by simp
qed

lemma record_wastes_item:
  assumes "get_item db i = Some item"
  shows "get_item (record_wastes db su steps) i
           = Some (item\<lparr>quantity :=
                foldl (\<lambda>q w. max 0 (double_sub q w)) (quantity item) (writeoffs_of i steps)\<rparr>)
         \<and> map waste_quantity
               (filter (\<lambda>w. inventory_item_id w = i) (waste_logs (record_wastes db su steps)))
             = map waste_quantity (filter (\<lambda>w. inventory_item_id w = i) (waste_logs db))
               @ writeoffs_of i steps"
  using assms
proof (induction steps arbitrary: db item)
  case Nil
  then show ?case by (simp add: writeoffs_of_def)
next
  case (Cons step rest)
  obtain e btn d where step: "step = (e, btn, d)" by (cases step) auto
  let ?db1 = "show_add_waste_dialog e db su btn d"
  have fin: "record_wastes db su (step # rest) = record_wastes ?db1 su rest"
    by (simp add: step)
  show ?case
  proof (cases "applied_to i step")
    case True
    then have ok: "btn = Record_button" "0 \<le> item_index d"
      "current_data (item_combo d) (item_index d) = Some i" "commit_error e = None"
      by (simp_all add: applied_to_def step)
    let ?q = "max 0 (double_sub (quantity item) (qty_input d))"
    note ap = show_add_waste_dialog_applied [OF ok(1) ok(2) ok(3) Cons.prems ok(4), of su]
    have g1: "get_item ?db1 i = Some (item\<lparr>quantity := ?q\<rparr>)"
      using Cons.prems by (simp add: ap get_item_def find_map_update)
    have wl: "filter (\<lambda>w. inventory_item_id w = i) (waste_logs ?db1)
        = filter (\<lambda>w. inventory_item_id w = i) (waste_logs db) @
          [\<lparr>waste_id = next_id (map waste_id (waste_logs db)), inventory_item_id = i,
            waste_user_id = user_id su, waste_quantity = qty_input d,
            waste_reason = current_text (reason_combo d) (reason_index d),
            waste_notes = notes_input d\<rparr>]"
      by (simp add: ap)
    have wo: "writeoffs_of i (step # rest) = qty_input d # writeoffs_of i rest"
      using True by (simp add: writeoffs_of_def step)
    from Cons.IH [OF g1] show ?thesis
      unfolding fin by (simp add: wo wl)
  next
    case False
    have wo: "writeoffs_of i (step # rest) = writeoffs_of i rest"
      using False by (simp add: writeoffs_of_def)
    have keep: "get_item ?db1 i = Some item
        \<and> filter (\<lambda>w. inventory_item_id w = i) (waste_logs ?db1)
            = filter (\<lambda>w. inventory_item_id w = i) (waste_logs db)"
    proof -
      from show_add_waste_dialog_cases [of e db su btn d] show ?thesis
      proof (elim disjE exE conjE)
        assume "?db1 = db"
        with Cons.prems show ?thesis by simp
      next
        fix j itemj
        assume ap: "applied_to j (e, btn, d)"
          and r: "?db1 = db\<lparr>items := map (\<lambda>it. if item_id it = j
                           then it\<lparr>quantity :=
                                  max 0 (double_sub (quantity itemj) (qty_input d))\<rparr>
                           else it)
                     (items db),
             waste_logs := waste_logs db @
               [\<lparr>waste_id = next_id (map waste_id (waste_logs db)), inventory_item_id = j,
                 waste_user_id = user_id su, waste_quantity = qty_input d,
                 waste_reason = current_text (reason_combo d) (reason_index d),
                 waste_notes = notes_input d\<rparr>]\<rparr>"
        from ap False have ne: "i \<noteq> j" by (auto simp add: step)
        with Cons.prems show ?thesis
          by (simp add: r get_item_def find_map_other)
      qed
    qed
    from keep have g1: "get_item ?db1 i = Some item" by simp
    from Cons.IH [OF g1] keep show ?thesis
      unfolding fin by (simp add: wo)
  qed
qed

text \<open>
  The rounding: \<open>binade\<close> brackets its argument between two powers of two, and
  \<open>round_double\<close> moves a number by at most half the spacing of the doubles around it.
\<close>

lemma binade_bounds:
  "0 < x \<Longrightarrow> 2 powi binade x \<le> x \<and> x < 2 powi (binade x + 1)"
proof (induction x rule: binade.induct)
  case (1 x)
  show ?case
  proof (cases "x < 1")
    case True
    with "1.prems" have b: "binade x = binade (2 * x) - 1"
      by (subst binade.simps) simp
    from "1.IH"(1) [of] "1.prems" True
    have ih: "2 powi binade (2 * x) \<le> 2 * x \<and> 2 * x < 2 powi (binade (2 * x) + 1)"
      by simp
    have p: "(2::real) powi (binade (2 * x) + 1) = 2 * 2 powi binade (2 * x)"
      "(2::real) powi (binade (2 * x) - 1) = 2 powi binade (2 * x) / 2"
      by (simp_all add: power_int_add power_int_diff)
    from ih show ?thesis unfolding b p by simp
  next
    case False
    show ?thesis
    proof (cases "2 \<le> x")
      case True
      with False "1.prems" have b: "binade x = binade (x / 2) + 1"
        by (subst binade.simps) simp
      from "1.IH"(2) "1.prems" False True
      have ih: "2 powi binade (x / 2) \<le> x / 2 \<and> x / 2 < 2 powi (binade (x / 2) + 1)"
        by simp
      have p: "(2::real) powi (binade (x / 2) + 1) = 2 * 2 powi binade (x / 2)"
        "(2::real) powi (binade (x / 2) + 1 + 1) = 2 * (2 * 2 powi binade (x / 2))"
        by (simp_all add: power_int_add)
      from ih show ?thesis unfolding b p by simp
    next
      case F2: False
      with False "1.prems" have b: "binade x = 0"
        by (subst binade.simps) simp
      from False F2 show ?thesis by (simp add: b)
    qed
  qed
qed

lemma round_half_even_error: "\<bar>of_int (round_half_even y) - y\<bar> \<le> 1 / 2"
proof -
  have "of_int \<lfloor>y\<rfloor> \<le> y" "y < of_int \<lfloor>y\<rfloor> + 1" by linarith+
  then show ?thesis
    by (auto simp add: round_half_even_def Let_def abs_le_iff)
qed

lemma round_double_error:
  "\<bar>round_double x - x\<bar> \<le> 2 powi (max (binade \<bar>x\<bar> - 52) (- 1074)) / 2"
proof (cases "x = 0")
  case True
  then show ?thesis by (simp add: round_double_def)
next
  case False
  let ?p = "(2::real) powi (max (binade \<bar>x\<bar> - 52) (- 1074))"
  have p: "0 < ?p" by simp
  have "round_double x - x = (of_int (round_half_even (x / ?p)) - x / ?p) * ?p"
    using False p by (simp add: round_double_def Let_def field_simps)
  then have "\<bar>round_double x - x\<bar> = \<bar>of_int (round_half_even (x / ?p)) - x / ?p\<bar> * ?p"
    using p by (simp add: abs_mult)
  also have "\<dots> \<le> 1 / 2 * ?p"
    using round_half_even_error [of "x / ?p"] p by (intro mult_right_mono) simp_all
  finally show ?thesis by simp
qed

lemma round_double_nonneg: "0 \<le> x \<Longrightarrow> 0 \<le> round_double x"
proof -
  assume x: "0 \<le> x"
  have r: "0 \<le> round_half_even y" if "0 \<le> y" for y
  proof -
    from that have "0 \<le> \<lfloor>y\<rfloor>" by simp
    then show ?thesis by (simp add: round_half_even_def Let_def)
  qed
  have p: "0 < (2::real) powi e" for e by simp
  show ?thesis
  proof (cases "x = 0")
    case True
    then show ?thesis by (simp add: round_double_def)
  next
    case False
    let ?e = "max (binade \<bar>x\<bar> - 52) (- 1074)"
    from x p [of ?e] have "0 \<le> x / 2 powi ?e" by simp
    then have "0 \<le> round_half_even (x / 2 powi ?e)" by (rule r)
    then have "0 \<le> of_int (round_half_even (x / 2 powi ?e)) * (2::real) powi ?e"
      using p [of ?e] by simp
    with False show ?thesis by (simp add: round_double_def Let_def)
  qed
qed

lemma edited_quantity: "edited d0 d \<Longrightarrow> 0 \<le> qty_input d"
proof -
  assume "edited d0 d"
  then obtain k :: nat where "qty_input d = round_double (real k / 100)"
    by (auto simp add: edited_def)
  then show ?thesis by (simp add: round_double_nonneg)
qed

lemma init_ui_selected:
  assumes "edited (init_ui db reasons) d" "0 \<le> item_index d"
  shows "\<exists>it \<in> set (items db). \<not> is_deleted it
           \<and> current_data (item_combo d) (item_index d) = Some (item_id it)"
proof -
  let ?its = "get_all_items db True"
  from assms(1) have combo: "item_combo d = map (\<lambda>it. (name it, item_id it)) ?its"
    by (simp add: edited_def init_ui_def Let_def)
  from assms have rng: "item_index d < int (length ?its)"
    by (auto simp add: edited_def init_ui_def Let_def split: if_splits)
  let ?n = "nat (item_index d)"
  from assms(2) rng have n: "?n < length ?its" by simp
  then have mem: "?its ! ?n \<in> set ?its" by simp
  then have "?its ! ?n \<in> set (items db)" "\<not> is_deleted (?its ! ?n)"
    by (simp_all add: get_all_items_def)
  moreover from assms(2) rng n
  have "current_data (item_combo d) (item_index d) = Some (item_id (?its ! ?n))"
    by (simp add: combo current_data_def)
  ultimately show ?thesis by blast
qed

lemma init_ui_reason:
  assumes "edited (init_ui db reasons) d" "reasons \<noteq> []"
  shows "current_text (reason_combo d) (reason_index d) \<in> set reasons"
proof -
  from assms have rc: "reason_combo d = reasons"
    and "0 \<le> reason_index d" "reason_index d < int (length reasons)"
    by (auto simp add: edited_def init_ui_def Let_def split: if_splits)
  then show ?thesis by (simp add: current_text_def)
qed

lemma find_member: "x \<in> set xs \<Longrightarrow> P x \<Longrightarrow> \<exists>y. find P xs = Some y"
  by (cases "find P xs") (auto simp add: find_None_iff)

subsection \<open>Authorizer\<close>

text \<open>
  Claim C3. The permission check depends on the user and the action only: without a
  user every action is denied, a user whose role is admin is permitted every action,
  and a user whose role is staff is permitted an action exactly when it is one of
  view_inventory, add_item, adjust_stock, record_waste, view_activity,
  export_inventory.
\<close>

theorem has_permission_roles:
  "has_permission None act = False
   \<and> (role u = ROLE_ADMIN \<longrightarrow> has_permission (Some u) act = True)
   \<and> (role u = ROLE_STAFF \<longrightarrow>
        has_permission (Some u) act =
          (act \<in> {''view_inventory'', ''add_item'', ''adjust_stock'', ''record_waste'',
                    ''view_activity'', ''export_inventory''}))"
  by (simp add: has_permission_def ROLE_ADMIN_def ROLE_STAFF_def staff_allowed_def)

theorem has_permission_roles_witness:
  "has_permission None ''delete_item'' = False
   \<and> role default_admin = ROLE_ADMIN
   \<and> has_permission (Some default_admin) ''delete_item'' = True
   \<and> role alice = ROLE_STAFF
   \<and> has_permission (Some alice) ''delete_item'' = False
   \<and> has_permission (Some alice) ''record_waste'' = True"
  using has_permission_roles [where u = default_admin and act = "''delete_item''"]
        has_permission_roles [where u = alice and act = "''delete_item''"]
        has_permission_roles [where u = alice and act = "''record_waste''"]
  by (simp add: alice_def default_admin_def ROLE_ADMIN_def ROLE_STAFF_def)

text \<open>
  Claim C10. The permission check fails closed on an unknown role: a user whose role
  is neither 'admin' nor 'staff' is denied every action. Such a user can exist, since
  \<^verbatim>\<open>create_user\<close> never looks at the role: whether it succeeds does not depend on the role
  it is given.
\<close>

theorem has_permission_unknown_role:
  "(role u \<noteq> ''admin'' \<and> role u \<noteq> ''staff'' \<longrightarrow> has_permission (Some u) act = False)
   \<and> fst (fst (create_user e db uname mail password fname r))
     = fst (fst (create_user e db uname mail password fname r'))"
  by (auto simp add: has_permission_def ROLE_ADMIN_def ROLE_STAFF_def create_user_def Let_def
      split: prod.splits sum.splits option.splits exn.splits)

theorem has_permission_unknown_role_witness:
  "role bob \<noteq> ''admin'' \<and> role bob \<noteq> ''staff''
   \<and> has_permission (Some bob) ''view_inventory'' = False"
  using has_permission_unknown_role [where u = bob and act = "''view_inventory''"]
  by (simp add: bob_def)

subsection \<open>Directory\<close>

text \<open>
  Claim C4. \<^verbatim>\<open>authenticate_user\<close> returns \<^verbatim>\<open>None\<close> when no user has the username, when the
  user with the username is inactive, and when the password does not verify against
  the stored hash: the same value in the three cases. It returns a user exactly when
  that user is the one with the username, is active and the password verifies.
\<close>

theorem authenticate_user_cases:
  "((\<forall>v \<in> set (users db). username v \<noteq> uname) \<longrightarrow>
      authenticate_user e db uname password = None)
   \<and> (find (\<lambda>v. username v = uname) (users db) = Some u \<and> \<not> is_active u \<longrightarrow>
      authenticate_user e db uname password = None)
   \<and> (find (\<lambda>v. username v = uname) (users db) = Some u
        \<and> \<not> verify_password e password (password_hash u) \<longrightarrow>
      authenticate_user e db uname password = None)
   \<and> (authenticate_user e db uname password = Some u \<longleftrightarrow>
        find (\<lambda>v. username v = uname) (users db) = Some u \<and> is_active u
        \<and> verify_password e password (password_hash u))"
proof -
  have "find (\<lambda>v. username v = uname) (users db) = None"
    if "\<forall>v \<in> set (users db). username v \<noteq> uname"
    using that by (simp add: find_None_iff)
  then show ?thesis
    by (auto simp add: authenticate_user_def split: option.splits)
qed

theorem authenticate_user_cases_witness:
  "authenticate_user sample_env staff_db ''carol'' ''Abcdef1!'' = None
   \<and> authenticate_user sample_env staff_db ''bob'' ''Abcdef1!'' = None
   \<and> authenticate_user sample_env staff_db ''alice'' ''Abcdef2!'' = None
   \<and> authenticate_user sample_env staff_db ''alice'' ''Abcdef1!'' = Some alice"
proof -
  have f: "find (\<lambda>v. username v = ''alice'') (users staff_db) = Some alice"
    "find (\<lambda>v. username v = ''bob'') (users staff_db) = Some bob"
    "\<forall>v \<in> set (users staff_db). username v \<noteq> ''carol''"
    by (simp_all add: staff_db_def alice_def bob_def)
  have v: "\<not> is_active bob" "is_active alice"
    "\<not> verify_password sample_env ''Abcdef2!'' (password_hash alice)"
    "verify_password sample_env ''Abcdef1!'' (password_hash alice)"
    by (simp_all add: alice_def bob_def verify_password_def sample_env_def)
  from f v
    authenticate_user_cases [of staff_db "''carol''" sample_env "''Abcdef1!''" alice]
    authenticate_user_cases [of staff_db "''bob''" sample_env "''Abcdef1!''" bob]
    authenticate_user_cases [of staff_db "''alice''" sample_env "''Abcdef2!''" alice]
    authenticate_user_cases [of staff_db "''alice''" sample_env "''Abcdef1!''" alice]
  show ?thesis by blast
qed

text \<open>
  Claim C5. \<^verbatim>\<open>create_user\<close> reports the first violation and writes nothing: when the
  username, the email or the password fails its check, or a stored user has the
  username or the email, it returns the failure with the message of that violation,
  no user object, and the store is unchanged. The store changes only when every check
  has passed, and then it gains exactly the new row, whose password column is the value
  that the hashing returned. The call succeeds exactly when the checks pass and the
  hashing, the commit and the read-back go through; it then returns the new row.
\<close>

theorem create_user_result:
  assumes "create_user e db uname mail password fname r = ((success, msg, new), db')"
  shows "(\<not> fst (validate_username uname) \<longrightarrow>
            \<not> success \<and> msg = ''Invalid username: '' @ snd (validate_username uname)
            \<and> new = None \<and> db' = db)
         \<and> (fst (validate_username uname) \<and> \<not> fst (validate_email mail) \<longrightarrow>
            \<not> success \<and> msg = ''Invalid email: '' @ snd (validate_email mail)
            \<and> new = None \<and> db' = db)
         \<and> (fst (validate_username uname) \<and> fst (validate_email mail)
            \<and> \<not> fst (validate_password_strength password) \<longrightarrow>
            \<not> success \<and> msg = ''Weak password: '' @ snd (validate_password_strength password)
            \<and> new = None \<and> db' = db)
         \<and> (fst (validate_username uname) \<and> fst (validate_email mail)
            \<and> fst (validate_password_strength password)
            \<and> (\<exists>u \<in> set (users db). username u = uname) \<longrightarrow>
            \<not> success \<and> msg = ''Username already exists'' \<and> new = None \<and> db' = db)
         \<and> (fst (validate_username uname) \<and> fst (validate_email mail)
            \<and> fst (validate_password_strength password)
            \<and> (\<forall>u \<in> set (users db). username u \<noteq> uname)
            \<and> (\<exists>u \<in> set (users db). email u = mail) \<longrightarrow>
            \<not> success \<and> msg = ''Email already exists'' \<and> new = None \<and> db' = db)
         \<and> (db' \<noteq> db \<longrightarrow>
            fst (validate_username uname) \<and> fst (validate_email mail)
            \<and> fst (validate_password_strength password)
            \<and> (\<forall>u \<in> set (users db). username u \<noteq> uname \<and> email u \<noteq> mail)
            \<and> commit_error e = None
            \<and> (\<exists>h. hash_password e password = Inr h
                 \<and> db' = db\<lparr>users := users db @
                      [\<lparr>user_id = next_id (map user_id (users db)),
                        username = uname, email = mail, password_hash = h,
                        full_name = fname, role = r, is_active = True,
                        last_login = None\<rparr>]\<rparr>))
         \<and> (success \<longleftrightarrow>
            fst (validate_username uname) \<and> fst (validate_email mail)
            \<and> fst (validate_password_strength password)
            \<and> (\<forall>u \<in> set (users db). username u \<noteq> uname \<and> email u \<noteq> mail)
            \<and> (\<exists>h. hash_password e password = Inr h)
            \<and> commit_error e = None \<and> refresh_error e = None)
         \<and> (success \<longrightarrow>
            msg = ''User created successfully''
            \<and> (\<exists>h. hash_password e password = Inr h
                 \<and> new = Some \<lparr>user_id = next_id (map user_id (users db)),
                        username = uname, email = mail, password_hash = h,
                        full_name = fname, role = r, is_active = True,
                        last_login = None\<rparr>)
            \<and> db' \<noteq> db)
         \<and> (\<not> success \<longrightarrow> new = None)"
proof -
  have n: "find P xs = None \<longleftrightarrow> (\<forall>x \<in> set xs. \<not> P x)" for P :: "user \<Rightarrow> bool" and xs
    by (auto simp add: find_None_iff)
  have d: "db\<lparr>users := users db @ [x]\<rparr> \<noteq> db" for x
  proof
    assume "db\<lparr>users := users db @ [x]\<rparr> = db"
    then have "users (db\<lparr>users := users db @ [x]\<rparr>) = users db" by simp
    then show False by simp
  qed
  obtain vu mu where vu: "validate_username uname = (vu, mu)" by (cases "validate_username uname")
  obtain ve me where ve: "validate_email mail = (ve, me)" by (cases "validate_email mail")
  obtain vp mp where vp: "validate_password_strength password = (vp, mp)"
    by (cases "validate_password_strength password")
  show ?thesis
  proof (cases "vu \<and> ve \<and> vp
      \<and> find (\<lambda>u. username u = uname) (users db) = None
      \<and> find (\<lambda>u. email u = mail) (users db) = None")
    case False
    with assms vu ve vp show ?thesis
      by (auto simp add: create_user_def Let_def n split: if_splits)
  next
    case True
    show ?thesis
    proof (cases "hash_password e password")
      case (Inl x)
      with assms vu ve vp True show ?thesis
        by (cases x) (auto simp add: create_user_def Let_def n)
    next
      case (Inr h)
      show ?thesis
      proof (cases "commit_error e")
        case (Some x)
        with assms vu ve vp True Inr show ?thesis
          by (cases x) (auto simp add: create_user_def Let_def n)
      next
        case None
        show ?thesis
        proof (cases "refresh_error e")
          case (Some x)
          with assms vu ve vp True Inr None d show ?thesis
            by (cases x) (auto simp add: create_user_def Let_def n)
        next
          case rn: None
          with assms vu ve vp True Inr None d show ?thesis
            by (auto simp add: create_user_def Let_def n)
        qed
      qed
    qed
  qed
qed

theorem create_user_result_witness:
  "create_user sample_env empty_db ''alice'' ''alice@x.com'' ''Abcdef1!'' ''Alice'' ''staff''
     = ((True, ''User created successfully'', Some alice), empty_db\<lparr>users := [alice]\<rparr>)
   \<and> create_user sample_env (empty_db\<lparr>users := [alice]\<rparr>) ''alice'' ''al@x.com'' ''Abcdef1!''
       ''Alice'' ''staff''
     = ((False, ''Username already exists'', None), empty_db\<lparr>users := [alice]\<rparr>)
   \<and> create_user sample_env empty_db ''alice'' ''alice@x.com'' ''abc'' ''Alice'' ''staff''
     = ((False, ''Weak password: Password must be at least 8 characters long'', None),
        empty_db)
   \<and> create_user refresh_fails_env empty_db ''alice'' ''alice@x.com'' ''Abcdef1!'' ''Alice''
       ''staff''
     = ((False, ''Error creating user: connection lost'', None),
        empty_db\<lparr>users := [alice]\<rparr>)
   \<and> fst (validate_username ''alice'') \<and> fst (validate_email ''alice@x.com'')
   \<and> fst (validate_password_strength ''Abcdef1!'')
   \<and> \<not> fst (validate_password_strength ''abc'')
   \<and> hash_password sample_env ''Abcdef1!'' = Inr (password_hash alice)
   \<and> commit_error refresh_fails_env = None
   \<and> empty_db\<lparr>users := [alice]\<rparr> \<noteq> empty_db"
proof -
  note defs = create_user_def sample_env_def refresh_fails_env_def empty_db_def alice_def
    validate_username_def validate_email_def validate_password_strength_def
    username_pattern_def email_pattern_def strip_final_newline_def re_search_def
    lowercase_def uppercase_def digits_def specials_def PASSWORD_MIN_LENGTH_def
    hash_password_def next_id_def Let_def
  have c1: "create_user sample_env empty_db ''alice'' ''alice@x.com'' ''Abcdef1!'' ''Alice''
       ''staff''
     = ((True, ''User created successfully'', Some alice), empty_db\<lparr>users := [alice]\<rparr>)"
    by (simp add: defs)
  have c2: "create_user sample_env (empty_db\<lparr>users := [alice]\<rparr>) ''alice'' ''al@x.com''
       ''Abcdef1!'' ''Alice'' ''staff''
     = ((False, ''Username already exists'', None), empty_db\<lparr>users := [alice]\<rparr>)"
    by (simp add: defs)
  have c3: "create_user sample_env empty_db ''alice'' ''alice@x.com'' ''abc'' ''Alice''
       ''staff''
     = ((False, ''Weak password: Password must be at least 8 characters long'', None),
        empty_db)"
  proof -
    have "char_of (56 :: nat) = CHR ''8''" by code_simp
    then show ?thesis by (simp add: defs)
  qed
  have c4: "create_user refresh_fails_env empty_db ''alice'' ''alice@x.com'' ''Abcdef1!''
       ''Alice'' ''staff''
     = ((False, ''Error creating user: connection lost'', None),
        empty_db\<lparr>users := [alice]\<rparr>)"
    by (simp add: defs)
  have h: "hash_password sample_env ''Abcdef1!'' = Inr (password_hash alice)"
    by (simp add: hash_password_def sample_env_def alice_def)
  have w1: "fst (validate_username ''alice'') \<and> fst (validate_email ''alice@x.com'')
      \<and> fst (validate_password_strength ''Abcdef1!'')
      \<and> empty_db\<lparr>users := [alice]\<rparr> \<noteq> empty_db"
    using create_user_result [OF c1] by blast
  have w3: "\<not> fst (validate_password_strength ''abc'')"
    by (simp add: validate_password_strength_def PASSWORD_MIN_LENGTH_def)
  have w4: "commit_error refresh_fails_env = None"
    using create_user_result [OF c4] w1 by blast
  from w1 w3 w4 c1 c2 c3 c4 h show ?thesis by blast
qed



subsection \<open>AuthSession: the login path\<close>

text \<open>
  Claim C7, as the specification states it: every successful login sets the last-login
  timestamp of the authenticated user. It fails: Alice logs in with her password, the
  login succeeds, and the users table is what it was, her \<^verbatim>\<open>last_login\<close> still empty.
\<close>

theorem login_last_login_counterexample:
  "authenticate_user sample_env (store logged_out) ''alice'' ''Abcdef1!'' = Some alice
   \<and> current_user (login sample_env logged_out 1 ''alice'' ''Abcdef1!'') = Some alice
   \<and> users (store (login sample_env logged_out 1 ''alice'' ''Abcdef1!'')) = [alice, bob]
   \<and> last_login alice = None"
  by (simp add: login_def on_login_complete_def set_current_user_def log_audit_action_def
      authenticate_user_def verify_password_def sample_env_def logged_out_def staff_db_def
      alice_def bob_def Let_def)

text \<open>
  Claim C7, amended. The login path writes no column of any user: the users table after
  a login is the table before it, so \<^verbatim>\<open>last_login\<close> stays as it was. A failed login
  changes nothing at all. A successful login stores the user and the session handle as
  the current ones and, when the commit goes through, appends one audit row with the
  action LOGIN.
\<close>

theorem login_keeps_users:
  "users (store (login e st sess uname password)) = users (store st)
   \<and> (authenticate_user e (store st) uname password = None \<longrightarrow>
        login e st sess uname password = st)
   \<and> (authenticate_user e (store st) uname password = Some u \<longrightarrow>
        current_user (login e st sess uname password) = Some u
        \<and> current_session (login e st sess uname password) = Some sess
        \<and> (commit_error e = None \<longrightarrow>
             audit_trails (store (login e st sess uname password)) =
               audit_trails (store st) @
                 [\<lparr>audit_id = next_id (map audit_id (audit_trails (store st))),
                   audit_user_id = user_id u, audit_item_id = None, action = ''LOGIN'',
                   entity_type = ''User'', entity_id = user_id u, old_values = None,
                   new_values = None,
                   description = Some (''User '' @ [CHR 0x27] @ username u @ [CHR 0x27]
                                         @ '' logged in'')\<rparr>]))"
  by (auto simp add: login_def on_login_complete_def set_current_user_def
      log_audit_action_def Let_def split: option.splits)

theorem login_keeps_users_witness:
  "authenticate_user sample_env (store logged_out) ''alice'' ''Abcdef1!'' = Some alice
   \<and> commit_error sample_env = None
   \<and> users (store (login sample_env logged_out 1 ''alice'' ''Abcdef1!'')) = [alice, bob]
   \<and> current_user (login sample_env logged_out 1 ''alice'' ''Abcdef1!'') = Some alice
   \<and> map action (audit_trails (store (login sample_env logged_out 1 ''alice'' ''Abcdef1!'')))
       = [''LOGIN'']
   \<and> authenticate_user sample_env (store logged_out) ''alice'' ''Abcdef2!'' = None
   \<and> login sample_env logged_out 1 ''alice'' ''Abcdef2!'' = logged_out"
proof -
  have a: "authenticate_user sample_env (store logged_out) ''alice'' ''Abcdef1!'' = Some alice"
    "authenticate_user sample_env (store logged_out) ''alice'' ''Abcdef2!'' = None"
    by (simp_all add: authenticate_user_def verify_password_def sample_env_def
        logged_out_def staff_db_def alice_def bob_def)
  have c: "commit_error sample_env = None" "users (store logged_out) = [alice, bob]"
    "audit_trails (store logged_out) = []"
    by (simp_all add: sample_env_def logged_out_def staff_db_def)
  from a c
    login_keeps_users [of sample_env logged_out 1 "''alice''" "''Abcdef1!''" alice]
    login_keeps_users [of sample_env logged_out 1 "''alice''" "''Abcdef2!''" alice]
  show ?thesis by simp
qed

subsection \<open>InventoryLedger and AuditLedger: the waste write-off\<close>

text \<open>
  Claim C1, as the specification states it: the number of audit rows with action WASTE
  for an item equals the number of its waste log rows. It fails: after one committed
  write-off of item 1 there is one waste log row for the item and no audit row.
\<close>

theorem waste_audit_count_counterexample:
  "waste_log_count
     (record_wastes stock_db default_admin [(sample_env, Record_button, expired_dialog)]) 1 = 1
   \<and> waste_audit_count
     (record_wastes stock_db default_admin [(sample_env, Record_button, expired_dialog)]) 1 = 0
   \<and> waste_audit_count
     (record_wastes stock_db default_admin [(sample_env, Record_button, expired_dialog)]) 1
     \<noteq> waste_log_count
     (record_wastes stock_db default_admin [(sample_env, Record_button, expired_dialog)]) 1"
  by code_simp

text \<open>
  Claim C1, amended. A waste write-off writes no audit row: every sequence of write-offs
  leaves the audit table as it was, so the number of WASTE audit rows of an item keeps
  its initial value. The decrement of the quantity and the insert of the waste log row
  are one transaction: a write-off either leaves the store unchanged or applies both.
\<close>

theorem waste_writeoff_no_audit:
  "audit_trails (record_wastes db su steps) = audit_trails db
   \<and> waste_audit_count (record_wastes db su steps) i = waste_audit_count db i
   \<and> (show_add_waste_dialog e db su btn d = db
      \<or> (\<exists>j item. get_item db j = Some item
        \<and> show_add_waste_dialog e db su btn d =
          db\<lparr>items := map (\<lambda>it. if item_id it = j
                           then it\<lparr>quantity :=
                                  max 0 (double_sub (quantity item) (qty_input d))\<rparr>
                           else it)
                     (items db),
             waste_logs := waste_logs db @
               [\<lparr>waste_id = next_id (map waste_id (waste_logs db)), inventory_item_id = j,
                 waste_user_id = user_id su, waste_quantity = qty_input d,
                 waste_reason = current_text (reason_combo d) (reason_index d),
                 waste_notes = notes_input d\<rparr>]\<rparr>))"
  using show_add_waste_dialog_cases [of e db su btn d]
  by (auto simp add: record_wastes_audit_trails waste_audit_count_def)

theorem waste_writeoff_no_audit_witness:
  "audit_trails
     (record_wastes stock_db default_admin [(sample_env, Record_button, expired_dialog)]) = []
   \<and> waste_audit_count
       (record_wastes stock_db default_admin [(sample_env, Record_button, expired_dialog)]) 1
     = 0
   \<and> show_add_waste_dialog sample_env stock_db default_admin Record_button expired_dialog
     \<noteq> stock_db
   \<and> map waste_quantity
       (waste_logs (show_add_waste_dialog sample_env stock_db default_admin Record_button
          expired_dialog)) = [8]"
proof -
  have a: "audit_trails stock_db = []" "waste_audit_count stock_db 1 = 0"
    by (simp_all add: stock_db_def waste_audit_count_def)
  have r: "waste_logs (show_add_waste_dialog sample_env stock_db default_admin Record_button
          expired_dialog)
      = [\<lparr>waste_id = 1, inventory_item_id = 1, waste_user_id = 1, waste_quantity = 8,
          waste_reason = ''expired'', waste_notes = []\<rparr>]"
    by code_simp
  have w: "waste_logs stock_db = []"
    by (simp add: stock_db_def)
  from r w have n: "show_add_waste_dialog sample_env stock_db default_admin Record_button
      expired_dialog \<noteq> stock_db"
    by auto
  from a r n
    waste_writeoff_no_audit [of stock_db default_admin
      "[(sample_env, Record_button, expired_dialog)]" 1 sample_env Record_button expired_dialog]
  show ?thesis by simp
qed

text \<open>
  Claim C2, as the specification states it: after the write-offs \<open>w1, ..., wn\<close> the
  quantity is \<open>max 0 (q0 - (w1 + ... + wn))\<close>. It fails, because every subtraction is
  rounded: with 1.0 on hand, the write-offs of 0.20 and of 0.10 leave
  0.7000000000000001, which is neither the exact value of the formula on these amounts
  nor its value in floating point, 0.7.
\<close>

theorem waste_rounding_counterexample:
  "get_item unit_db 1 = Some (pearl_tea\<lparr>quantity := 1\<rparr>)
   \<and> writeoffs_of 1 tenths_steps
       = [3602879701896397 / 18014398509481984, 3602879701896397 / 36028797018963968]
   \<and> get_item (record_wastes unit_db default_admin tenths_steps) 1
       = Some (pearl_tea\<lparr>quantity := 6305039478318695 / 9007199254740992\<rparr>)
   \<and> max 0 (1 - (3602879701896397 / 18014398509481984
                  + 3602879701896397 / 36028797018963968))
       = (25220157913274777 / 36028797018963968 :: real)
   \<and> max 0 (double_sub 1 (double_add (3602879701896397 / 18014398509481984)
                               (3602879701896397 / 36028797018963968)))
       = 3152519739159347 / 4503599627370496
   \<and> (6305039478318695 / 9007199254740992 :: real)
       \<noteq> 25220157913274777 / 36028797018963968
   \<and> (6305039478318695 / 9007199254740992 :: real)
       \<noteq> 3152519739159347 / 4503599627370496"
  by code_simp

text \<open>
  Claim C2, amended. Each committed write-off of an item replaces its quantity \<open>q\<close> by
  \<open>max 0 (q - w)\<close>, the difference rounded to a double. After any sequence of dialogs
  (cancelled ones, write-offs of other items and failed commits among them) the
  quantity of the item is the result of these steps for its committed write-offs in
  order, and the waste log rows that the sequence adds for the item store the requested
  amounts, not the clamped decrements. When the quantity at the start and the amounts
  are not negative and no subtraction rounds, the result is
  \<open>max 0 (q0 - (w1 + ... + wn))\<close>: 8 from 5 on hand leaves 0 and a row with 8.
\<close>

theorem record_wastes_quantity:
  assumes "get_item db i = Some item"
  shows "get_item (record_wastes db su steps) i
           = Some (item\<lparr>quantity :=
                foldl (\<lambda>q w. max 0 (double_sub q w)) (quantity item) (writeoffs_of i steps)\<rparr>)
         \<and> map waste_quantity
               (filter (\<lambda>w. inventory_item_id w = i) (waste_logs (record_wastes db su steps)))
             = map waste_quantity (filter (\<lambda>w. inventory_item_id w = i) (waste_logs db))
               @ writeoffs_of i steps
         \<and> (0 \<le> quantity item \<and> (\<forall>w \<in> set (writeoffs_of i steps). 0 \<le> w)
              \<and> exact_run (quantity item) (writeoffs_of i steps) \<longrightarrow>
            get_item (record_wastes db su steps) i
              = Some (item\<lparr>quantity :=
                   max 0 (quantity item - sum_list (writeoffs_of i steps))\<rparr>))"
  using record_wastes_item [OF assms, of su steps] clamp_exact by auto

theorem record_wastes_quantity_witness:
  "get_item stock_db 1 = Some pearl_tea \<and> quantity pearl_tea = 5
   \<and> writeoffs_of 1 stock_steps = [2, 8]
   \<and> exact_run 5 [2, 8]
   \<and> get_item (record_wastes stock_db default_admin stock_steps) 1
       = Some (pearl_tea\<lparr>quantity := 0\<rparr>)
   \<and> map waste_quantity
        (filter (\<lambda>w. inventory_item_id w = 1)
           (waste_logs (record_wastes stock_db default_admin stock_steps))) = [2, 8]"
proof -
  have g: "get_item stock_db 1 = Some pearl_tea"
    by (simp add: get_item_def stock_db_def pearl_tea_def)
  have q: "quantity pearl_tea = 5" "waste_logs stock_db = []"
    by (simp_all add: pearl_tea_def stock_db_def)
  have w: "writeoffs_of 1 stock_steps = [2, 8]"
    by code_simp
  have x: "exact_run 5 [2, 8]"
    by code_simp
  from record_wastes_quantity [OF g, of default_admin stock_steps] g q w x
  show ?thesis by simp
qed

text \<open>
  Claim C6, as the specification states it: a write-off whose quantity is not strictly
  positive is rejected and creates no waste log row. It fails: the dialog as opened on
  the stock, with the quantity set to 0, is accepted and a row with quantity 0 is stored.
\<close>

theorem waste_zero_quantity_counterexample:
  "edited (init_ui stock_db waste_reasons) zero_dialog
   \<and> \<not> 0 < qty_input zero_dialog
   \<and> waste_logs stock_db = []
   \<and> waste_logs (show_add_waste_dialog sample_env stock_db default_admin Record_button
        zero_dialog)
     = [\<lparr>waste_id = 1, inventory_item_id = 1, waste_user_id = 1, waste_quantity = 0,
         waste_reason = ''spill'', waste_notes = []\<rparr>]"
proof -
  have z: "round_double (real 0 / 100) = 0"
    by (simp add: round_double_def)
  have q: "qty_input zero_dialog = 0"
    by (simp add: zero_dialog_def)
  have "\<exists>k \<in> {0..9999}. qty_input zero_dialog = round_double (real k / 100)"
    using z q by (intro bexI [of _ 0]) simp_all
  then have e: "edited (init_ui stock_db waste_reasons) zero_dialog"
    by (simp add: edited_def zero_dialog_def init_ui_def get_all_items_def stock_db_def
        waste_reasons_def Let_def)
  have w: "waste_logs stock_db = []"
    by (simp add: stock_db_def)
  have r: "waste_logs (show_add_waste_dialog sample_env stock_db default_admin Record_button
        zero_dialog)
     = [\<lparr>waste_id = 1, inventory_item_id = 1, waste_user_id = 1, waste_quantity = 0,
         waste_reason = ''spill'', waste_notes = []\<rparr>]"
    by code_simp
  from e q w r show ?thesis by simp
qed

text \<open>
  Claim C6, amended. The dialog rejects a request with a validation warning, and the
  store is unchanged, when no item is selected. The boxes of the dialog hold only the
  items that are not soft-deleted and the configured reasons, and the spin box a
  quantity from 0.00 to 99.99: an accepted request names an item that is not
  soft-deleted, a quantity that is not negative and, when the list of configured
  reasons is not empty, one of these reasons. A request whose item is not in the store
  fails and the store is unchanged: no quantity changes and no waste log row is
  created. Within its range the quantity is not checked: every request that the dialog
  accepts, one with quantity 0 too, is applied when the commit goes through, and its
  waste log row stores the requested quantity.
\<close>

theorem waste_dialog_validation:
  "(item_index d < 0 \<longrightarrow>
      accept d = Inl ''Select an item'' \<and> show_add_waste_dialog e db su btn d = db)
   \<and> (edited (init_ui db reasons) d \<and> accept d = Inr en \<longrightarrow>
        (\<exists>it \<in> set (items db). \<not> is_deleted it \<and> entry_item_id en = Some (item_id it))
        \<and> (reasons \<noteq> [] \<longrightarrow> entry_reason en \<in> set reasons)
        \<and> 0 \<le> entry_quantity en)
   \<and> (current_data (item_combo d) (item_index d) = Some i \<and> get_item db i = None \<longrightarrow>
        show_add_waste_dialog e db su btn d = db)
   \<and> (edited (init_ui db reasons) d \<and> btn = Record_button \<and> 0 \<le> item_index d
        \<and> commit_error e = None \<longrightarrow>
        (\<exists>j item. current_data (item_combo d) (item_index d) = Some j
          \<and> get_item db j = Some item
          \<and> show_add_waste_dialog e db su btn d =
            db\<lparr>items := map (\<lambda>it. if item_id it = j
                             then it\<lparr>quantity :=
                                    max 0 (double_sub (quantity item) (qty_input d))\<rparr>
                             else it)
                       (items db),
               waste_logs := waste_logs db @
                 [\<lparr>waste_id = next_id (map waste_id (waste_logs db)), inventory_item_id = j,
                   waste_user_id = user_id su, waste_quantity = qty_input d,
                   waste_reason = current_text (reason_combo d) (reason_index d),
                   waste_notes = notes_input d\<rparr>]\<rparr>))"
proof (intro conjI impI)
  assume "item_index d < 0"
  then show "accept d = Inl ''Select an item''"
    by (simp add: accept_def)
next
  assume "item_index d < 0"
  then show "show_add_waste_dialog e db su btn d = db"
    by (simp add: show_add_waste_dialog_def exec_dialog_def accept_def split: button.splits)
next
  assume a: "edited (init_ui db reasons) d \<and> accept d = Inr en"
  then have idx: "0 \<le> item_index d"
    and en: "entry_item_id en = current_data (item_combo d) (item_index d)"
            "entry_reason en = current_text (reason_combo d) (reason_index d)"
            "entry_quantity en = qty_input d"
    by (auto simp add: accept_def split: if_splits)
  from a idx show "\<exists>it \<in> set (items db). \<not> is_deleted it
      \<and> entry_item_id en = Some (item_id it)"
    using init_ui_selected [of db reasons d] by (simp add: en)
  from a show "0 \<le> entry_quantity en"
    using edited_quantity [of "init_ui db reasons" d] by (simp add: en)
  assume "reasons \<noteq> []"
  with a show "entry_reason en \<in> set reasons"
    using init_ui_reason [of db reasons d] by (simp add: en)
next
  assume "current_data (item_combo d) (item_index d) = Some i \<and> get_item db i = None"
  then show "show_add_waste_dialog e db su btn d = db"
    by (simp add: show_add_waste_dialog_def exec_dialog_def accept_def
        split: button.splits option.splits)
next
  assume a: "edited (init_ui db reasons) d \<and> btn = Record_button \<and> 0 \<le> item_index d
        \<and> commit_error e = None"
  then obtain it where it: "it \<in> set (items db)"
      "current_data (item_combo d) (item_index d) = Some (item_id it)"
    using init_ui_selected [of db reasons d] by blast
  from it(1) obtain item where item: "get_item db (item_id it) = Some item"
    using find_member [of it "items db" "\<lambda>x. item_id x = item_id it"]
    by (auto simp add: get_item_def)
  from a have ok: "btn = Record_button" "0 \<le> item_index d" "commit_error e = None"
    by simp_all
  note ap = show_add_waste_dialog_applied [OF ok(1) ok(2) it(2) item ok(3), of su]
  show "\<exists>j item. current_data (item_combo d) (item_index d) = Some j
          \<and> get_item db j = Some item
          \<and> show_add_waste_dialog e db su btn d =
            db\<lparr>items := map (\<lambda>it. if item_id it = j
                             then it\<lparr>quantity :=
                                    max 0 (double_sub (quantity item) (qty_input d))\<rparr>
                             else it)
                       (items db),
               waste_logs := waste_logs db @
                 [\<lparr>waste_id = next_id (map waste_id (waste_logs db)), inventory_item_id = j,
                   waste_user_id = user_id su, waste_quantity = qty_input d,
                   waste_reason = current_text (reason_combo d) (reason_index d),
                   waste_notes = notes_input d\<rparr>]\<rparr>"
    by (rule exI [of _ "item_id it"], rule exI [of _ item]) (simp add: it(2) item ap)
qed

theorem waste_dialog_validation_witness:
  "item_index (init_ui empty_db waste_reasons) < 0
   \<and> accept (init_ui empty_db waste_reasons) = Inl ''Select an item''
   \<and> edited (init_ui stock_db waste_reasons) expired_dialog
   \<and> accept expired_dialog =
       Inr \<lparr>entry_item_id = Some 1, entry_quantity = 8, entry_reason = ''expired'',
            entry_notes = []\<rparr>
   \<and> ''expired'' \<in> set waste_reasons
   \<and> current_data (item_combo expired_dialog) (item_index expired_dialog) = Some 1
   \<and> get_item empty_db 1 = None
   \<and> show_add_waste_dialog sample_env empty_db default_admin Record_button expired_dialog
       = empty_db
   \<and> get_item stock_db 1 = Some pearl_tea
   \<and> commit_error sample_env = None
   \<and> waste_logs (show_add_waste_dialog sample_env stock_db default_admin Record_button
        expired_dialog)
     = [\<lparr>waste_id = 1, inventory_item_id = 1, waste_user_id = 1, waste_quantity = 8,
         waste_reason = ''expired'', waste_notes = []\<rparr>]"
proof -
  let ?en = "\<lparr>entry_item_id = Some 1, entry_quantity = 8, entry_reason = ''expired'',
        entry_notes = []\<rparr>"
  have i: "item_index (init_ui empty_db waste_reasons) < 0"
    by (simp add: init_ui_def get_all_items_def empty_db_def Let_def)
  have r8: "round_double (real 800 / 100) = 8"
    by code_simp
  have "\<exists>k \<in> {0..9999}. qty_input expired_dialog = round_double (real k / 100)"
    using r8 by (intro bexI [of _ 800]) (simp_all add: expired_dialog_def)
  then have ed: "edited (init_ui stock_db waste_reasons) expired_dialog"
    by (simp add: edited_def expired_dialog_def init_ui_def get_all_items_def stock_db_def
        waste_reasons_def Let_def)
  have ac: "accept expired_dialog = Inr ?en"
    by (simp add: accept_def expired_dialog_def init_ui_def get_all_items_def stock_db_def
        pearl_tea_def waste_reasons_def current_data_def current_text_def Let_def)
  have cd: "current_data (item_combo expired_dialog) (item_index expired_dialog) = Some 1"
    "0 \<le> item_index expired_dialog"
    by (simp_all add: expired_dialog_def init_ui_def get_all_items_def stock_db_def
        pearl_tea_def waste_reasons_def current_data_def Let_def)
  have g: "get_item empty_db 1 = None" "get_item stock_db 1 = Some pearl_tea"
    "commit_error sample_env = None" "''expired'' \<in> set waste_reasons"
    by (simp_all add: get_item_def empty_db_def stock_db_def pearl_tea_def sample_env_def
        waste_reasons_def)
  have r: "waste_logs (show_add_waste_dialog sample_env stock_db default_admin Record_button
        expired_dialog)
     = [\<lparr>waste_id = 1, inventory_item_id = 1, waste_user_id = 1, waste_quantity = 8,
         waste_reason = ''expired'', waste_notes = []\<rparr>]"
    by code_simp
  have a1: "accept (init_ui empty_db waste_reasons) = Inl ''Select an item''"
    using waste_dialog_validation
      [of "init_ui empty_db waste_reasons" sample_env empty_db default_admin Record_button
        waste_reasons ?en 1] i
    by blast
  have a3: "show_add_waste_dialog sample_env empty_db default_admin Record_button
      expired_dialog = empty_db"
    using waste_dialog_validation
      [of expired_dialog sample_env empty_db default_admin Record_button waste_reasons ?en 1]
      cd g
    by blast
  have a4: "\<exists>j item. current_data (item_combo expired_dialog) (item_index expired_dialog)
        = Some j \<and> get_item stock_db j = Some item"
    using waste_dialog_validation
      [of expired_dialog sample_env stock_db default_admin Record_button waste_reasons ?en 1]
      ed cd g
    by blast
  from i a1 ed ac cd g a3 r show ?thesis by simp
qed

end
